theory Spec2Isabelle
  imports Main
begin

section \<open>Food calorie estimator: the inference client and its caller\<close>

text \<open>
  A shallow embedding of \<^verbatim>\<open>streamlit_food_calorie_estimator.py\<close>: the helper
  \<^verbatim>\<open>image_to_base64\<close>, the retry loop of \<^verbatim>\<open>call_gemini_api\<close> and the script
  that calls both. Python exceptions are values of the type \<open>exn\<close>; a computation that
  may raise has the type \<open>exn + 'a\<close>, with \<open>Inl\<close> the exception that leaves it.
  Everything the program shows or does to the outside (a request, a sleep, a Streamlit
  element) is an \<open>event\<close> appended to a trace, in program order.

  The libraries the program calls are modelled by what the program observes of them:
  \<^item> \<^verbatim>\<open>requests.post\<close> at attempt \<open>i\<close> is \<open>backend i\<close>, either a transport failure
    or a response with a status code and a body;
  \<^item> \<^verbatim>\<open>response.raise_for_status()\<close> raises for the status codes 400 to 599, as the
    requests library defines it;
  \<^item> \<^verbatim>\<open>response.json()\<close> and \<^verbatim>\<open>json.loads\<close> are a decoder \<open>loads\<close>, a parameter of
    every function that decodes: it returns a value or raises, and what it raises need
    not be a \<^verbatim>\<open>JSONDecodeError\<close> (the decoder of Python raises \<^verbatim>\<open>RecursionError\<close> on
    deep nesting and \<^verbatim>\<open>ValueError\<close> on an integer of more than 4300 digits);
  \<^item> \<^verbatim>\<open>st.table\<close> is a parameter \<open>st_table\<close>: it renders the value or raises;
  \<^item> a Python float is a value of its own, but the result of an addition of floats is
    not computed: a total that is a float is \<open>Float_value\<close>, whatever its value.
\<close>

subsection \<open>Values, exceptions and events\<close>

text \<open>
  A float that \<^verbatim>\<open>json.loads\<close> returns: the double nearest to the decimal number
  \<open>m \<times> 10 ^ e\<close> of the text (\<open>m\<close> is not negative), with its sign, or one of the
  constants.
\<close>

datatype pyfloat =
    Decimal bool int int
  | Infinity bool
  | NaN

text \<open>What \<^verbatim>\<open>json.loads\<close> returns. A dict is an association list read with \<open>map_of\<close>;
  Python's \<^verbatim>\<open>None\<close> is \<open>JNull\<close>.\<close>

datatype json =
    JNull
  | JBool bool
  | JInt int
  | JFloat pyfloat
  | JStr string
  | JArr "json list"
  | JObj "(string \<times> json) list"

text \<open>The exceptions of Python that the program meets. \<open>Outside_model\<close> is none of
  them: the decoder of the examples answers it for a text that it does not model.\<close>

datatype exn =
    HTTPError nat
  | RequestException
  | JSONDecodeError
  | KeyError
  | IndexError
  | TypeError
  | AttributeError
  | OSError
  | RecursionError
  | ValueError
  | OverflowError
  | Outside_model

text \<open>The outcome of \<^verbatim>\<open>requests.post\<close>: a \<^verbatim>\<open>RequestException\<close> raised by the transport,
  or a response, of which the program reads the status code and the body.\<close>

datatype http_outcome =
    Transport_failure
  | Response nat string

text \<open>A number that \<^verbatim>\<open>sum\<close> holds: an integer, or a float whose value is not
  computed.\<close>

datatype py_number =
    Int_value int
  | Float_value

datatype event =
    Post string string
  | Error_403
  | Warning_retry nat nat int
  | Sleep nat
  | Error_calling exn
  | Error_max_retries
  | Image_shown
  | Success_banner
  | Subheader
  | Table json
  | Header_total py_number

text \<open>
  \<open>Post prompt data\<close> is the request of line 63, with the two variable parts of its
  payload. \<open>Error_403\<close>, \<open>Error_calling e\<close> and \<open>Error_max_retries\<close> are the
  \<^verbatim>\<open>st.error\<close> of lines 70, 76 and 79; \<open>Warning_retry delay (i + 1) retries\<close> is the
  \<^verbatim>\<open>st.warning\<close> of line 72 and \<open>Sleep delay\<close> the \<^verbatim>\<open>time.sleep\<close> of line 73, which
  is taken to return. The last five are the Streamlit elements of lines 101 and 120 to
  128; \<open>Table v\<close> is a table that \<^verbatim>\<open>st.table\<close> has rendered.
\<close>

subsection \<open>Subscripts and truth values of Python\<close>

text \<open>\<^verbatim>\<open>x[key]\<close> for a string key: a dict without the key raises \<^verbatim>\<open>KeyError\<close>; a
  list or a string takes integer indices only, and the other values have no subscript
  (\<^verbatim>\<open>TypeError\<close>).\<close>

fun getitem_key :: "json \<Rightarrow> string \<Rightarrow> exn + json" where
  "getitem_key (JObj kvs) key =
     (case map_of kvs key of None \<Rightarrow> Inl KeyError | Some v \<Rightarrow> Inr v)"
| "getitem_key _ key = Inl TypeError"

text \<open>\<^verbatim>\<open>x[0]\<close>: an empty list or string raises \<^verbatim>\<open>IndexError\<close>; a decoded dict has
  string keys only, so the key \<open>0\<close> is missing.\<close>

fun getitem_0 :: "json \<Rightarrow> exn + json" where
  "getitem_0 (JArr []) = Inl IndexError"
| "getitem_0 (JArr (x # xs)) = Inr x"
| "getitem_0 (JStr []) = Inl IndexError"
| "getitem_0 (JStr (c # cs)) = Inr (JStr [c])"
| "getitem_0 (JObj kvs) = Inl KeyError"
| "getitem_0 _ = Inl TypeError"

text \<open>A float is zero when its decimal number rounds to zero: it is zero, or at most
  half of the least positive double, \<open>2 ^ - 1075\<close>.\<close>

fun float_is_zero :: "pyfloat \<Rightarrow> bool" where
  "float_is_zero (Decimal neg m e) = (m = 0 \<or> e < 0 \<and> m * 2 ^ 1075 \<le> 10 ^ nat (- e))"
| "float_is_zero (Infinity neg) = False"
| "float_is_zero NaN = False"

text \<open>The truth value \<^verbatim>\<open>if results:\<close> tests.\<close>

fun truthy :: "json \<Rightarrow> bool" where
  "truthy JNull = False"
| "truthy (JBool b) = b"
| "truthy (JInt n) = (n \<noteq> 0)"
| "truthy (JFloat f) = (\<not> float_is_zero f)"
| "truthy (JStr s) = (s \<noteq> [])"
| "truthy (JArr xs) = (xs \<noteq> [])"
| "truthy (JObj kvs) = (kvs \<noteq> [])"

subsection \<open>The encoder\<close>

text \<open>
  An image is modelled by what \<^verbatim>\<open>image.save(buffered, format="JPEG")\<close> does with it:
  it raises, or it writes bytes into the buffer. \<^verbatim>\<open>base64.b64encode\<close> is written out.
\<close>

type_synonym image = "exn + string"

definition b64_alphabet :: string where
  "b64_alphabet =
     ''ABCDEFGHIJKLMNOPQRSTUVWXYZabcdefghijklmnopqrstuvwxyz0123456789+/''"

definition b64_char :: "nat \<Rightarrow> char" where
  "b64_char n = b64_alphabet ! (n mod 64)"

fun b64encode :: "string \<Rightarrow> string" where
  "b64encode (a # b # c # rest) =
     (let n = of_char a * 65536 + of_char b * 256 + of_char c
      in b64_char (n div 262144) # b64_char (n div 4096) # b64_char (n div 64)
         # b64_char n # b64encode rest)"
| "b64encode [a, b] =
     (let n = of_char a * 65536 + of_char b * 256
      in [b64_char (n div 262144), b64_char (n div 4096), b64_char (n div 64), CHR ''='']) "
| "b64encode [a] =
     (let n = of_char a * 65536
      in [b64_char (n div 262144), b64_char (n div 4096), CHR ''='', CHR ''=''])"
| "b64encode [] = []"

definition image_to_base64 :: "image \<Rightarrow> exn + string" where
  "image_to_base64 img =
     (case img of Inl e \<Rightarrow> Inl e | Inr buffered \<Rightarrow> Inr (b64encode buffered))"

subsection \<open>The inference client\<close>

text \<open>\<^verbatim>\<open>result["candidates"][0]["content"]["parts"][0]["text"]\<close>, line 66, one
  subscript after the other; the first that raises ends the chain.\<close>

definition envelope_text :: "json \<Rightarrow> exn + json" where
  "envelope_text result =
     (case getitem_key result ''candidates'' of Inl e \<Rightarrow> Inl e | Inr candidates \<Rightarrow>
     (case getitem_0 candidates of Inl e \<Rightarrow> Inl e | Inr candidate \<Rightarrow>
     (case getitem_key candidate ''content'' of Inl e \<Rightarrow> Inl e | Inr content \<Rightarrow>
     (case getitem_key content ''parts'' of Inl e \<Rightarrow> Inl e | Inr parts \<Rightarrow>
     (case getitem_0 parts of Inl e \<Rightarrow> Inl e | Inr part \<Rightarrow>
      getitem_key part ''text'')))))"

text \<open>\<^verbatim>\<open>json.loads(json_string)\<close>, line 67: the argument must be a string.\<close>

definition loads_payload :: "(string \<Rightarrow> exn + json) \<Rightarrow> json \<Rightarrow> exn + json" where
  "loads_payload loads json_string =
     (case json_string of
        JStr s \<Rightarrow> loads s
      | _ \<Rightarrow> Inl TypeError)"

text \<open>The body of the \<^verbatim>\<open>try\<close>, lines 63 to 67. Whatever the decoder raises leaves
  \<^verbatim>\<open>response.json()\<close> and \<^verbatim>\<open>json.loads\<close> as it is.\<close>

definition try_body :: "(string \<Rightarrow> exn + json) \<Rightarrow> http_outcome \<Rightarrow> exn + json" where
  "try_body loads outcome =
     (case outcome of
        Transport_failure \<Rightarrow> Inl RequestException
      | Response status_code body \<Rightarrow>
          if 400 \<le> status_code \<and> status_code < 600 then Inl (HTTPError status_code)
          else (case loads body of
                  Inl e \<Rightarrow> Inl e
                | Inr result \<Rightarrow>
                    (case envelope_text result of
                       Inl e \<Rightarrow> Inl e
                     | Inr json_string \<Rightarrow> loads_payload loads json_string)))"

text \<open>
  The \<^verbatim>\<open>for\<close> loop of lines 61 to 77 and the two lines after it. The first numeric
  argument counts the iterations that \<^verbatim>\<open>range(retries)\<close> still has, \<open>i\<close> is the loop
  variable and \<open>delay\<close> the local of line 60. The two \<^verbatim>\<open>except\<close> clauses are read in
  the source's order; an exception that neither names leaves the function.
\<close>

fun retry_loop ::
  "(string \<Rightarrow> exn + json) \<Rightarrow> (nat \<Rightarrow> http_outcome) \<Rightarrow> string \<Rightarrow> string \<Rightarrow> int
     \<Rightarrow> nat \<Rightarrow> nat \<Rightarrow> nat \<Rightarrow> event list \<times> (exn + json)" where
  "retry_loop loads backend prompt data retries 0 i delay =
     ([Error_max_retries], Inr JNull)"
| "retry_loop loads backend prompt data retries (Suc k) i delay =
     (case try_body loads (backend i) of
        Inr v \<Rightarrow> ([Post prompt data], Inr v)
      | Inl (HTTPError status_code) \<Rightarrow>
          if status_code = 403 then ([Post prompt data, Error_403], Inr JNull)
          else (case retry_loop loads backend prompt data retries k (Suc i) (delay * 2) of
                  (es, r) \<Rightarrow>
                    (Post prompt data # Warning_retry delay (Suc i) retries # Sleep delay # es,
                     r))
      | Inl RequestException \<Rightarrow>
          ([Post prompt data, Error_calling RequestException], Inr JNull)
      | Inl JSONDecodeError \<Rightarrow>
          ([Post prompt data, Error_calling JSONDecodeError], Inr JNull)
      | Inl KeyError \<Rightarrow> ([Post prompt data, Error_calling KeyError], Inr JNull)
      | Inl e \<Rightarrow> ([Post prompt data], Inl e))"

definition call_gemini_api ::
  "(string \<Rightarrow> exn + json) \<Rightarrow> (nat \<Rightarrow> http_outcome) \<Rightarrow> string \<Rightarrow> string \<Rightarrow> int
     \<Rightarrow> event list \<times> (exn + json)" where
  "call_gemini_api loads backend prompt base64_image_data retries =
     retry_loop loads backend prompt base64_image_data retries (nat retries) 0 1"

subsection \<open>The caller\<close>

text \<open>\<^verbatim>\<open>item.get("calories", 0)\<close>: only a dict has the method.\<close>

definition item_get_calories :: "json \<Rightarrow> exn + json" where
  "item_get_calories item =
     (case item of
        JObj kvs \<Rightarrow> (case map_of kvs ''calories'' of None \<Rightarrow> Inr (JInt 0) | Some v \<Rightarrow> Inr v)
      | _ \<Rightarrow> Inl AttributeError)"

text \<open>An integer converts to a float when it rounds to a double: its magnitude is below
  \<open>2 ^ 1024 - 2 ^ 970\<close>. Otherwise the conversion raises \<^verbatim>\<open>OverflowError\<close>.\<close>

definition int_fits_float :: "int \<Rightarrow> bool" where
  "int_fits_float n = (\<bar>n\<bar> < 2 ^ 1024 - 2 ^ 970)"

text \<open>
  The addition \<^verbatim>\<open>sum\<close> makes on its accumulator. A Python bool is an integer. When an
  integer meets a float, on either side, the integer is converted first. Anything else
  that a payload can hold does not add to a number.
\<close>

fun py_add :: "py_number \<Rightarrow> json \<Rightarrow> exn + py_number" where
  "py_add (Int_value a) (JInt n) = Inr (Int_value (a + n))"
| "py_add (Int_value a) (JBool b) = Inr (Int_value (a + of_bool b))"
| "py_add (Int_value a) (JFloat f) =
     (if int_fits_float a then Inr Float_value else Inl OverflowError)"
| "py_add Float_value (JInt n) =
     (if int_fits_float n then Inr Float_value else Inl OverflowError)"
| "py_add Float_value (JBool b) = Inr Float_value"
| "py_add Float_value (JFloat f) = Inr Float_value"
| "py_add acc v = Inl TypeError"

fun sum_calories :: "py_number \<Rightarrow> json list \<Rightarrow> exn + py_number" where
  "sum_calories acc [] = Inr acc"
| "sum_calories acc (item # items) =
     (case item_get_calories item of
        Inl e \<Rightarrow> Inl e
      | Inr v \<Rightarrow> (case py_add acc v of Inl e \<Rightarrow> Inl e | Inr acc' \<Rightarrow> sum_calories acc' items))"

text \<open>\<^verbatim>\<open>for item in results\<close>: a list gives its elements, a dict its keys, a string its
  characters; the other values are not iterable.\<close>

definition iter_items :: "json \<Rightarrow> exn + json list" where
  "iter_items results =
     (case results of
        JArr xs \<Rightarrow> Inr xs
      | JObj kvs \<Rightarrow> Inr (map JStr (remdups (map fst kvs)))
      | JStr s \<Rightarrow> Inr (map (\<lambda>c. JStr [c]) s)
      | _ \<Rightarrow> Inl TypeError)"

text \<open>Line 127: \<^verbatim>\<open>sum\<close> starts from the integer 0.\<close>

definition total_calories :: "json \<Rightarrow> exn + py_number" where
  "total_calories results =
     (case iter_items results of
        Inl e \<Rightarrow> Inl e
      | Inr items \<Rightarrow> sum_calories (Int_value 0) items)"

text \<open>
  Lines 119 to 128. \<^verbatim>\<open>st.table\<close> is the parameter \<open>st_table\<close>: \<open>None\<close> when it renders
  the value, \<open>Some e\<close> when it raises \<open>e\<close>, and then nothing after it runs. The other
  Streamlit calls are events.
\<close>

definition render_results :: "(json \<Rightarrow> exn option) \<Rightarrow> json \<Rightarrow> event list \<times> (exn + unit)" where
  "render_results st_table results =
     (if truthy results then
        (case st_table results of
           Some e \<Rightarrow> ([Success_banner, Subheader], Inl e)
         | None \<Rightarrow>
             (case total_calories results of
                Inl e \<Rightarrow> ([Success_banner, Subheader, Table results], Inl e)
              | Inr total_cal \<Rightarrow>
                  ([Success_banner, Subheader, Table results, Header_total total_cal],
                   Inr ())))
      else ([], Inr ()))"

definition prompt :: string where
  \<open>prompt =
     ''What food is in this picture? Provide the name of the food and a reasonable '' @
     ''estimated calorie count for a typical single serving size in an array of JSON objects. '' @
     ''For example, if you see an apple and a banana, return: '' @
     ''[{"food_item": "Apple", "calories": 95}, {"food_item": "Banana", "calories": 105}]. '' @
     ''Only respond with the JSON array, nothing else.''\<close>

text \<open>
  One run of the script, lines 98 to 131. The uploaded file is \<open>None\<close> when nothing is
  uploaded, and otherwise what \<^verbatim>\<open>Image.open\<close> does with it: it raises, or it gives an
  image. \<open>button\<close> is what \<^verbatim>\<open>st.button\<close> returns. Inside the branch of line 98 the file
  object is true, so the \<^verbatim>\<open>else\<close> of line 130 is never taken. The result is the trace of
  the run and \<open>Inl e\<close> when the exception \<open>e\<close> leaves the script.
\<close>

definition script ::
  "(string \<Rightarrow> exn + json) \<Rightarrow> (json \<Rightarrow> exn option) \<Rightarrow> (nat \<Rightarrow> http_outcome)
     \<Rightarrow> (exn + image) option \<Rightarrow> bool \<Rightarrow> event list \<times> (exn + unit)" where
  "script loads st_table backend uploaded_file button =
     (case uploaded_file of
        None \<Rightarrow> ([], Inr ())
      | Some (Inl e) \<Rightarrow> ([], Inl e)
      | Some (Inr img) \<Rightarrow>
          if \<not> button then ([Image_shown], Inr ())
          else (case image_to_base64 img of
                  Inl e \<Rightarrow> ([Image_shown], Inl e)
                | Inr base64_image \<Rightarrow>
                    (case call_gemini_api loads backend prompt base64_image 5 of
                       (es, Inl e) \<Rightarrow> (Image_shown # es, Inl e)
                     | (es, Inr results) \<Rightarrow>
                         (case render_results st_table results of
                            (es', r) \<Rightarrow> (Image_shown # es @ es', r)))))"

subsection \<open>A decoder for the examples\<close>

text \<open>
  The theorems below hold for every decoder. Their instances at concrete responses need
  one: \<open>json_loads\<close> reads JSON text as \<^verbatim>\<open>json.loads\<close> of Python 3.11 does. A text that
  is not JSON raises \<^verbatim>\<open>JSONDecodeError\<close>, an integer of more than 4300 digits raises
  \<^verbatim>\<open>ValueError\<close>, a number with a fraction or an exponent is a float, and a later value
  of a repeated key replaces the earlier one. Two kinds of text are not modelled and
  are answered with \<open>Outside_model\<close>: a string with a \<^verbatim>\<open>\\u\<close> escape, and arrays or
  objects nested more than 100 deep (Python raises \<^verbatim>\<open>RecursionError\<close> from a depth that
  depends on the interpreter's stack). The recursion is bounded by a counter that the
  length of the text exceeds.
\<close>

definition is_ws :: "char \<Rightarrow> bool" where
  "is_ws c = (c = CHR '' '' \<or> c = CHR 0x09 \<or> c = CHR 0x0A \<or> c = CHR 0x0D)"

fun skip_ws :: "string \<Rightarrow> string" where
  "skip_ws [] = []"
| "skip_ws (c # cs) = (if is_ws c then skip_ws cs else c # cs)"

definition is_digit :: "char \<Rightarrow> bool" where
  "is_digit c = (48 \<le> (of_char c :: nat) \<and> (of_char c :: nat) \<le> 57)"

text \<open>The digits at the start of a text and what follows them; the number that a
  sequence of digits writes.\<close>

fun scan_digits :: "string \<Rightarrow> string \<times> string" where
  "scan_digits [] = ([], [])"
| "scan_digits (c # cs) =
     (if is_digit c then (case scan_digits cs of (ds, rest) \<Rightarrow> (c # ds, rest))
      else ([], c # cs))"

fun digits_value :: "int \<Rightarrow> string \<Rightarrow> int" where
  "digits_value acc [] = acc"
| "digits_value acc (c # cs) = digits_value (acc * 10 + (of_char c - 48)) cs"

text \<open>The integer part of a number: a single \<open>0\<close>, or digits that start with another
  digit.\<close>

definition scan_int_part :: "string \<Rightarrow> (string \<times> string) option" where
  "scan_int_part cs =
     (case cs of
        [] \<Rightarrow> None
      | c # rest \<Rightarrow>
          if \<not> is_digit c then None
          else if c = CHR ''0'' then Some ([c], rest)
          else Some (scan_digits cs))"

text \<open>The fraction: a point and at least one digit. A point without a digit cannot
  follow a number anywhere in a JSON text.\<close>

definition scan_fraction :: "string \<Rightarrow> (string option \<times> string) option" where
  "scan_fraction cs =
     (case cs of
        c # rest \<Rightarrow>
          if c = CHR ''.'' then
            (case scan_digits rest of
               (ds, rest') \<Rightarrow> if ds = [] then None else Some (Some ds, rest'))
          else Some (None, cs)
      | [] \<Rightarrow> Some (None, []))"

text \<open>The exponent: \<open>e\<close> or \<open>E\<close>, a sign or none, and at least one digit.\<close>

definition scan_exponent :: "string \<Rightarrow> (int option \<times> string) option" where
  "scan_exponent cs =
     (case cs of
        c # rest \<Rightarrow>
          if c = CHR ''e'' \<or> c = CHR ''E'' then
            (case rest of
               [] \<Rightarrow> None
             | s # rest' \<Rightarrow>
                 (case scan_digits (if s = CHR ''+'' \<or> s = CHR ''-'' then rest' else rest) of
                    (ds, rest'') \<Rightarrow>
                      if ds = [] then None
                      else Some (Some (if s = CHR ''-'' then - digits_value 0 ds
                                       else digits_value 0 ds), rest'')))
          else Some (None, cs)
      | [] \<Rightarrow> Some (None, []))"

definition scan_number :: "bool \<Rightarrow> string \<Rightarrow> exn + (json \<times> string)" where
  "scan_number neg cs =
     (case scan_int_part cs of
        None \<Rightarrow> Inl JSONDecodeError
      | Some (ip, rest) \<Rightarrow>
          (case scan_fraction rest of
             None \<Rightarrow> Inl JSONDecodeError
           | Some (frac, rest') \<Rightarrow>
               (case scan_exponent rest' of
                  None \<Rightarrow> Inl JSONDecodeError
                | Some (ex, rest'') \<Rightarrow>
                    if frac = None \<and> ex = None then
                      (if 4300 < length ip then Inl ValueError
                       else Inr (JInt (if neg then - digits_value 0 ip
                                       else digits_value 0 ip), rest''))
                    else
                      (let fd = (case frac of None \<Rightarrow> [] | Some ds \<Rightarrow> ds);
                           x = (case ex of None \<Rightarrow> 0 | Some k \<Rightarrow> k)
                       in Inr (JFloat (Decimal neg (digits_value 0 (ip @ fd))
                                         (x - int (length fd))), rest'')))))"

definition unescape :: "char \<Rightarrow> exn + char" where
  "unescape e =
     (if e = CHR 0x22 then Inr (CHR 0x22)
      else if e = CHR 0x5C then Inr (CHR 0x5C)
      else if e = CHR ''/'' then Inr (CHR ''/'')
      else if e = CHR ''b'' then Inr (CHR 0x08)
      else if e = CHR ''f'' then Inr (CHR 0x0C)
      else if e = CHR ''n'' then Inr (CHR 0x0A)
      else if e = CHR ''r'' then Inr (CHR 0x0D)
      else if e = CHR ''t'' then Inr (CHR 0x09)
      else if e = CHR ''u'' then Inl Outside_model
      else Inl JSONDecodeError)"

fun scan_string :: "string \<Rightarrow> string \<Rightarrow> exn + (string \<times> string)" where
  "scan_string acc [] = Inl JSONDecodeError"
| "scan_string acc [c] = (if c = CHR 0x22 then Inr (rev acc, []) else Inl JSONDecodeError)"
| "scan_string acc (c # d # cs) =
     (if c = CHR 0x22 then Inr (rev acc, d # cs)
      else if c = CHR 0x5C then
        (case unescape d of Inl e \<Rightarrow> Inl e | Inr u \<Rightarrow> scan_string (u # acc) cs)
      else if (of_char c :: nat) < 32 then Inl JSONDecodeError
      else scan_string (c # acc) (d # cs))"

fun strip_prefix :: "string \<Rightarrow> string \<Rightarrow> string option" where
  "strip_prefix [] cs = Some cs"
| "strip_prefix (p # ps) [] = None"
| "strip_prefix (p # ps) (c # cs) = (if p = c then strip_prefix ps cs else None)"

text \<open>The constants: \<^verbatim>\<open>null\<close>, \<^verbatim>\<open>true\<close>, \<^verbatim>\<open>false\<close>, and the three floats that Python
  reads beyond JSON.\<close>

definition scan_constant :: "string \<Rightarrow> exn + (json \<times> string)" where
  "scan_constant cs =
     (case strip_prefix ''null'' cs of Some rest \<Rightarrow> Inr (JNull, rest) | None \<Rightarrow>
     (case strip_prefix ''true'' cs of Some rest \<Rightarrow> Inr (JBool True, rest) | None \<Rightarrow>
     (case strip_prefix ''false'' cs of Some rest \<Rightarrow> Inr (JBool False, rest) | None \<Rightarrow>
     (case strip_prefix ''NaN'' cs of Some rest \<Rightarrow> Inr (JFloat NaN, rest) | None \<Rightarrow>
     (case strip_prefix ''Infinity'' cs of
        Some rest \<Rightarrow> Inr (JFloat (Infinity False), rest) | None \<Rightarrow>
     (case strip_prefix ''-Infinity'' cs of
        Some rest \<Rightarrow> Inr (JFloat (Infinity True), rest) | None \<Rightarrow>
      Inl JSONDecodeError))))))"

fun dict_set :: "string \<Rightarrow> json \<Rightarrow> (string \<times> json) list \<Rightarrow> (string \<times> json) list" where
  "dict_set k v [] = [(k, v)]"
| "dict_set k v ((k', v') # kvs) =
     (if k = k' then (k, v) # kvs else (k', v') # dict_set k v kvs)"

text \<open>The first argument bounds the recursion, the second counts the arrays and
  objects that are open.\<close>

fun parse_value :: "nat \<Rightarrow> nat \<Rightarrow> string \<Rightarrow> exn + (json \<times> string)"
  and parse_elements :: "nat \<Rightarrow> nat \<Rightarrow> json list \<Rightarrow> string \<Rightarrow> exn + (json \<times> string)"
  and parse_members ::
    "nat \<Rightarrow> nat \<Rightarrow> (string \<times> json) list \<Rightarrow> string \<Rightarrow> exn + (json \<times> string)"
where
  "parse_value 0 depth cs = Inl Outside_model"
| "parse_value (Suc n) depth [] = Inl JSONDecodeError"
| "parse_value (Suc n) depth (c # rest) =
     (if c = CHR ''['' then
        (if 100 \<le> depth then Inl Outside_model
         else (case skip_ws rest of
                 [] \<Rightarrow> Inl JSONDecodeError
               | d # rest' \<Rightarrow>
                   if d = CHR '']'' then Inr (JArr [], rest')
                   else parse_elements n (Suc depth) [] (d # rest')))
      else if c = CHR ''{'' then
        (if 100 \<le> depth then Inl Outside_model
         else (case skip_ws rest of
                 [] \<Rightarrow> Inl JSONDecodeError
               | d # rest' \<Rightarrow>
                   if d = CHR ''}'' then Inr (JObj [], rest')
                   else parse_members n (Suc depth) [] (d # rest')))
      else if c = CHR 0x22 then
        (case scan_string [] rest of Inl e \<Rightarrow> Inl e | Inr (s, rest') \<Rightarrow> Inr (JStr s, rest'))
      else if c = CHR ''-'' \<and> (case rest of [] \<Rightarrow> False | d # _ \<Rightarrow> is_digit d) then
        scan_number True rest
      else if is_digit c then scan_number False (c # rest)
      else scan_constant (c # rest))"
| "parse_elements 0 depth acc cs = Inl Outside_model"
| "parse_elements (Suc n) depth acc cs =
     (case parse_value n depth cs of
        Inl e \<Rightarrow> Inl e
      | Inr (v, rest) \<Rightarrow>
          (case skip_ws rest of
             [] \<Rightarrow> Inl JSONDecodeError
           | d # rest' \<Rightarrow>
               if d = CHR '']'' then Inr (JArr (rev (v # acc)), rest')
               else if d = CHR '','' then parse_elements n depth (v # acc) (skip_ws rest')
               else Inl JSONDecodeError))"
| "parse_members 0 depth acc cs = Inl Outside_model"
| "parse_members (Suc n) depth acc [] = Inl JSONDecodeError"
| "parse_members (Suc n) depth acc (c # rest) =
     (if c \<noteq> CHR 0x22 then Inl JSONDecodeError
      else (case scan_string [] rest of
              Inl e \<Rightarrow> Inl e
            | Inr (key, rest1) \<Rightarrow>
                (case skip_ws rest1 of
                   [] \<Rightarrow> Inl JSONDecodeError
                 | d # rest2 \<Rightarrow>
                     if d \<noteq> CHR '':'' then Inl JSONDecodeError
                     else (case parse_value n depth (skip_ws rest2) of
                             Inl e \<Rightarrow> Inl e
                           | Inr (v, rest3) \<Rightarrow>
                               (case skip_ws rest3 of
                                  [] \<Rightarrow> Inl JSONDecodeError
                                | d' # rest4 \<Rightarrow>
                                    if d' = CHR ''}'' then Inr (JObj (dict_set key v acc), rest4)
                                    else if d' = CHR '','' then
                                      parse_members n depth (dict_set key v acc) (skip_ws rest4)
                                    else Inl JSONDecodeError)))))"

definition json_loads :: "string \<Rightarrow> exn + json" where
  "json_loads s =
     (case parse_value (2 * length s + 1) 0 (skip_ws s) of
        Inl e \<Rightarrow> Inl e
      | Inr (v, rest) \<Rightarrow> if skip_ws rest = [] then Inr v else Inl JSONDecodeError)"

subsection \<open>Backends, traces and predicates of the statements\<close>

text \<open>A backend that gives the same outcome at every attempt, and one that gives the
  outcomes of a list in order and fails at the transport after them.\<close>

definition always :: "http_outcome \<Rightarrow> nat \<Rightarrow> http_outcome" where
  "always outcome i = outcome"

definition scripted :: "http_outcome list \<Rightarrow> nat \<Rightarrow> http_outcome" where
  "scripted outcomes i = (if i < length outcomes then outcomes ! i else Transport_failure)"

text \<open>An \<^verbatim>\<open>st.table\<close> that renders the values of a list and raises on every other
  value.\<close>

definition renders_only :: "json list \<Rightarrow> json \<Rightarrow> exn option" where
  "renders_only values v = (if v \<in> set values then None else Some ValueError)"

text \<open>The body a backend sends for a text payload: the envelope of the Gemini API with
  the payload as the JSON string of its first candidate's first part.\<close>

fun json_escape :: "string \<Rightarrow> string" where
  "json_escape [] = []"
| "json_escape (c # cs) =
     (if c = CHR 0x22 \<or> c = CHR 0x5C then CHR 0x5C # c # json_escape cs
      else c # json_escape cs)"

definition envelope_body :: "string \<Rightarrow> string" where
  \<open>envelope_body payload =
     ''{"candidates":[{"content":{"parts":[{"text":"'' @ json_escape payload @ ''"}]}}]}''\<close>

text \<open>An outcome that the first \<^verbatim>\<open>except\<close> clause retries: a response whose status
  \<^verbatim>\<open>raise_for_status\<close> rejects, other than 403.\<close>

fun retryable :: "http_outcome \<Rightarrow> bool" where
  "retryable Transport_failure = False"
| "retryable (Response status_code body) =
     (400 \<le> status_code \<and> status_code < 600 \<and> status_code \<noteq> 403)"

text \<open>The trace of \<open>n\<close> retried attempts in a row, from attempt \<open>i\<close> with the delay
  \<open>delay\<close>: request, warning, sleep, each time with the delay doubled.\<close>

fun retry_trace :: "string \<Rightarrow> string \<Rightarrow> int \<Rightarrow> nat \<Rightarrow> nat \<Rightarrow> nat \<Rightarrow> event list" where
  "retry_trace p data retries i delay 0 = []"
| "retry_trace p data retries i delay (Suc n) =
     Post p data # Warning_retry delay (Suc i) retries # Sleep delay
       # retry_trace p data retries (Suc i) (delay * 2) n"

text \<open>The delays slept and the number of requests sent in a trace.\<close>

fun sleeps :: "event list \<Rightarrow> nat list" where
  "sleeps [] = []"
| "sleeps (Sleep d # es) = d # sleeps es"
| "sleeps (e # es) = sleeps es"

fun posts :: "event list \<Rightarrow> nat" where
  "posts [] = 0"
| "posts (Post p d # es) = Suc (posts es)"
| "posts (e # es) = posts es"

text \<open>An entry with integer calories: a dict in which the key \<^verbatim>\<open>calories\<close> is
  missing or holds an integer. Its contribution to the total is that
  integer, and zero when the key is missing.\<close>

fun food_entry :: "json \<Rightarrow> bool" where
  "food_entry (JObj kvs) =
     (case map_of kvs ''calories'' of None \<Rightarrow> True | Some (JInt n) \<Rightarrow> True | Some _ \<Rightarrow> False)"
| "food_entry _ = False"

fun calories_or_zero :: "json \<Rightarrow> int" where
  "calories_or_zero (JObj kvs) =
     (case map_of kvs ''calories'' of Some (JInt n) \<Rightarrow> n | _ \<Rightarrow> 0)"
| "calories_or_zero _ = 0"

text \<open>The events that are an \<^verbatim>\<open>st.error\<close> of the client.\<close>

fun is_st_error :: "event \<Rightarrow> bool" where
  "is_st_error Error_403 = True"
| "is_st_error (Error_calling e) = True"
| "is_st_error Error_max_retries = True"
| "is_st_error _ = False"

text \<open>
  A body on which lines 65 to 67 return, or raise what line 75 names: the decoder
  rejects the body with \<^verbatim>\<open>JSONDecodeError\<close>; or the body decodes to an envelope in
  which a key of the path is missing; or the path leads to a string that decodes, or
  that the decoder rejects with \<^verbatim>\<open>JSONDecodeError\<close>.
\<close>

definition handled_body :: "(string \<Rightarrow> exn + json) \<Rightarrow> string \<Rightarrow> bool" where
  "handled_body loads body =
     (case loads body of
        Inl e \<Rightarrow> e = JSONDecodeError
      | Inr envelope \<Rightarrow>
          (case envelope_text envelope of
             Inl e \<Rightarrow> e = KeyError
           | Inr (JStr payload) \<Rightarrow>
               (case loads payload of Inl e \<Rightarrow> e = JSONDecodeError | Inr v \<Rightarrow> True)
           | Inr _ \<Rightarrow> False))"

text \<open>The entry of the specification's data model, \<^verbatim>\<open>{food_item: string, calories:
  number}\<close>, written after its words.\<close>

fun spec_food_estimate :: "json \<Rightarrow> bool" where
  "spec_food_estimate (JObj kvs) =
     (case (map_of kvs ''food_item'', map_of kvs ''calories'') of
        (Some (JStr name), Some (JInt n)) \<Rightarrow> True
      | (Some (JStr name), Some (JFloat f)) \<Rightarrow> True
      | _ \<Rightarrow> False)"
| "spec_food_estimate _ = False"

section \<open>Properties\<close>

subsection \<open>The retry loop\<close>

lemma try_body_retryable:
  "retryable outcome \<Longrightarrow> \<exists>s. try_body loads outcome = Inl (HTTPError s) \<and> s \<noteq> 403"
  by (cases outcome) (auto simp: try_body_def)

lemma retry_loop_retryable:
  "retryable (backend i) \<Longrightarrow>
   retry_loop loads backend p d r (Suc k) i delay =
     (Post p d # Warning_retry delay (Suc i) r # Sleep delay
        # fst (retry_loop loads backend p d r k (Suc i) (delay * 2)),
      snd (retry_loop loads backend p d r k (Suc i) (delay * 2)))"
  using try_body_retryable[of "backend i" loads]
  by (auto split: prod.splits)

text \<open>As long as the outcomes are retried, the loop only extends the trace.\<close>

lemma retry_loop_prefix:
  "\<forall>m<n. retryable (backend (i + m)) \<Longrightarrow>
   retry_loop loads backend p d r (n + k) i delay =
     (retry_trace p d r i delay n @ fst (retry_loop loads backend p d r k (i + n) (delay * 2 ^ n)),
      snd (retry_loop loads backend p d r k (i + n) (delay * 2 ^ n)))"
proof (induction n arbitrary: i delay)
  case 0
  then show ?case by simp
next
  case (Suc n)
  have first: "retryable (backend i)" using Suc.prems by force
  have rest: "\<forall>m<n. retryable (backend (Suc i + m))" using Suc.prems by force
  show ?case
    using Suc.IH[OF rest, of "delay * 2"]
      retry_loop_retryable[of backend i loads p d r "n + k" delay, OF first]
    by (simp add: mult.assoc)
qed

lemma call_prefix:
  assumes "j \<le> nat retries" and "\<forall>m<j. retryable (backend m)"
  shows "call_gemini_api loads backend p d retries =
     (retry_trace p d retries 0 1 j
        @ fst (retry_loop loads backend p d retries (nat retries - j) j (2 ^ j)),
      snd (retry_loop loads backend p d retries (nat retries - j) j (2 ^ j)))"
proof -
  have "\<forall>m<j. retryable (backend (0 + m))" using assms(2) by simp
  from retry_loop_prefix[OF this, of loads p d retries "nat retries - j" 1]
  show ?thesis using assms(1) by (simp add: call_gemini_api_def)
qed

lemma sleeps_append: "sleeps (xs @ ys) = sleeps xs @ sleeps ys"
  by (induction xs rule: sleeps.induct) auto

lemma posts_append: "posts (xs @ ys) = posts xs + posts ys"
  by (induction xs rule: posts.induct) auto

lemma sleeps_retry_trace:
  "sleeps (retry_trace p d r i delay n) = map (\<lambda>m. delay * 2 ^ m) [0..<n]"
proof (induction n arbitrary: i delay)
  case 0
  then show ?case by simp
next
  case (Suc n)
  have "map (\<lambda>m. delay * 2 ^ m) [0..<Suc n] = delay # map (\<lambda>m. delay * 2 * 2 ^ m) [0..<n]"
    by (simp add: upt_conv_Cons map_Suc_upt[symmetric] mult.assoc del: upt_Suc)
  then show ?case using Suc.IH[of "Suc i" "delay * 2"] by simp
qed

lemma posts_retry_trace: "posts (retry_trace p d r i delay n) = n"
  by (induction n arbitrary: i delay) auto

lemma sum_powers_of_two: "sum_list (map (\<lambda>m. 2 ^ m) [0..<n]) = (2::nat) ^ n - 1"
  by (induction n) auto

text \<open>
  C1, as the code has it. When every attempt of the budget gets a response with an HTTP
  error status (400 to 599) other than 403, \<^verbatim>\<open>call_gemini_api\<close> sends exactly
  \<open>retries\<close> requests, sleeps after each of them for 1, 2, 4, ... time units (their sum is
  \<open>2 ^ retries - 1\<close>), reports that the maximum of retries is exceeded and returns
  \<^verbatim>\<open>None\<close>. With the default of 5 the delays are 1, 2, 4, 8, 16 and their sum is 31.
\<close>

theorem exhausted_retries:
  assumes "\<forall>m<nat retries. retryable (backend m)"
  shows "call_gemini_api loads backend p d retries =
           (retry_trace p d retries 0 1 (nat retries) @ [Error_max_retries], Inr JNull)
         \<and> posts (fst (call_gemini_api loads backend p d retries)) = nat retries
         \<and> sleeps (fst (call_gemini_api loads backend p d retries)) =
             map (\<lambda>m. 2 ^ m) [0..<nat retries]
         \<and> sum_list (sleeps (fst (call_gemini_api loads backend p d retries))) =
             2 ^ nat retries - 1"
proof -
  have run: "call_gemini_api loads backend p d retries =
      (retry_trace p d retries 0 1 (nat retries) @ [Error_max_retries], Inr JNull)"
    using call_prefix[of "nat retries" retries backend loads p d] assms by simp
  have sl: "sleeps (fst (call_gemini_api loads backend p d retries)) =
      map (\<lambda>m. 2 ^ m) [0..<nat retries]"
    by (simp add: run sleeps_append sleeps_retry_trace)
  have po: "posts (fst (call_gemini_api loads backend p d retries)) = nat retries"
    by (simp add: run posts_append posts_retry_trace)
  show ?thesis using run sl po by (simp add: sum_powers_of_two)
qed

text \<open>The backend answers 500 at each of the five attempts of the default budget.\<close>

theorem exhausted_retries_witness:
  "call_gemini_api json_loads (always (Response 500 [])) prompt ''QQ=='' 5 =
     ([Post prompt ''QQ=='', Warning_retry 1 1 5, Sleep 1,
       Post prompt ''QQ=='', Warning_retry 2 2 5, Sleep 2,
       Post prompt ''QQ=='', Warning_retry 4 3 5, Sleep 4,
       Post prompt ''QQ=='', Warning_retry 8 4 5, Sleep 8,
       Post prompt ''QQ=='', Warning_retry 16 5 5, Sleep 16,
       Error_max_retries], Inr JNull)
   \<and> posts (fst (call_gemini_api json_loads (always (Response 500 [])) prompt ''QQ=='' 5)) = 5
   \<and> sleeps (fst (call_gemini_api json_loads (always (Response 500 [])) prompt ''QQ=='' 5))
        = [1, 2, 4, 8, 16]
   \<and> sum_list (sleeps (fst (call_gemini_api json_loads (always (Response 500 [])) prompt ''QQ=='' 5)))
        = 31"
proof -
  have h: "\<forall>m<nat 5. retryable (always (Response 500 []) m)"
    by (simp add: always_def)
  have five: "nat 5 = Suc (Suc (Suc (Suc (Suc 0))))" by simp
  have upt5: "[0..<nat 5] = [0, 1, 2, 3, 4]" by (simp add: upt_rec)
  show ?thesis
    using exhausted_retries[OF h, of json_loads prompt "''QQ==''"]
    unfolding upt5 unfolding five by simp
qed

text \<open>
  C1 as stated speaks of every status that is neither 403 nor 2xx. A response with the
  status 304 and an empty body is one, at each of the five attempts; \<^verbatim>\<open>raise_for_status\<close>
  accepts it, the body does not decode, and the call ends after one request, with the
  error of line 76 and without a sleep.
\<close>

theorem non_2xx_status_counterexample:
  "call_gemini_api json_loads (always (Response 304 [])) prompt ''QQ=='' 5 =
     ([Post prompt ''QQ=='', Error_calling JSONDecodeError], Inr JNull)"
  by (simp add: call_gemini_api_def always_def try_body_def json_loads_def
      eval_nat_numeral)

subsection \<open>Fatal outcomes and success\<close>

text \<open>The state of the loop at attempt \<open>j\<close>, when the attempts before it were retried.\<close>

lemma call_at_attempt:
  assumes "j < nat retries" and "\<forall>m<j. retryable (backend m)"
  shows "call_gemini_api loads backend p d retries =
     (retry_trace p d retries 0 1 j
        @ fst (retry_loop loads backend p d retries (Suc (nat retries - Suc j)) j (2 ^ j)),
      snd (retry_loop loads backend p d retries (Suc (nat retries - Suc j)) j (2 ^ j)))"
proof -
  have "nat retries - j = Suc (nat retries - Suc j)" using assms(1) by simp
  then show ?thesis
    using call_prefix[of j retries backend loads p d] assms by simp
qed

text \<open>
  C2. When an attempt gets a response with the status 403, \<^verbatim>\<open>call_gemini_api\<close> reports
  the permission error and returns \<^verbatim>\<open>None\<close> at once, whatever remains of the budget:
  the trace ends with that attempt's request and the error, so no sleep follows and no
  further request is sent. The requests sent are those of the attempts up to this one,
  and the delays slept are those of the retried attempts before it.
\<close>

theorem forbidden_not_retried:
  assumes "j < nat retries" and "\<forall>m<j. retryable (backend m)"
    and "backend j = Response 403 body"
  shows "call_gemini_api loads backend p d retries =
           (retry_trace p d retries 0 1 j @ [Post p d, Error_403], Inr JNull)
         \<and> posts (fst (call_gemini_api loads backend p d retries)) = Suc j
         \<and> sleeps (fst (call_gemini_api loads backend p d retries)) =
             map (\<lambda>m. 2 ^ m) [0..<j]"
proof -
  have tb: "try_body loads (backend j) = Inl (HTTPError 403)"
    using assms(3) by (simp add: try_body_def)
  have run: "call_gemini_api loads backend p d retries =
      (retry_trace p d retries 0 1 j @ [Post p d, Error_403], Inr JNull)"
    using call_at_attempt[OF assms(1,2), of loads p d] tb by simp
  show ?thesis
    by (simp add: run sleeps_append sleeps_retry_trace posts_append posts_retry_trace)
qed

text \<open>A 403 at the first attempt: one request, no sleep. A 403 after two retried
  attempts: three requests, and the two sleeps of the retries.\<close>

theorem forbidden_not_retried_witness:
  "call_gemini_api json_loads (always (Response 403 [])) prompt ''QQ=='' 5 =
     ([Post prompt ''QQ=='', Error_403], Inr JNull)
   \<and> posts (fst (call_gemini_api json_loads (always (Response 403 [])) prompt ''QQ=='' 5)) = 1
   \<and> sleeps (fst (call_gemini_api json_loads (always (Response 403 [])) prompt ''QQ=='' 5)) = []
   \<and> call_gemini_api json_loads
        (scripted [Response 500 [], Response 503 [], Response 403 []]) prompt ''QQ=='' 5 =
     ([Post prompt ''QQ=='', Warning_retry 1 1 5, Sleep 1,
       Post prompt ''QQ=='', Warning_retry 2 2 5, Sleep 2,
       Post prompt ''QQ=='', Error_403], Inr JNull)"
proof -
  have a: "(0::nat) < nat 5" "\<forall>m<(0::nat). retryable (always (Response 403 []) m)"
    "always (Response 403 []) 0 = Response 403 []"
    by (simp_all add: always_def)
  have b: "(2::nat) < nat 5"
    "\<forall>m<(2::nat). retryable (scripted [Response 500 [], Response 503 [], Response 403 []] m)"
    "scripted [Response 500 [], Response 503 [], Response 403 []] 2 = Response 403 []"
    by (simp_all add: scripted_def less_Suc_eq eval_nat_numeral)
  show ?thesis
    using forbidden_not_retried[OF a, of json_loads prompt "''QQ==''"]
      forbidden_not_retried[OF b, of json_loads prompt "''QQ==''"]
    by (simp add: eval_nat_numeral)
qed

text \<open>
  The failures that line 75 names. When an attempt fails at the transport, or its
  response passes \<^verbatim>\<open>raise_for_status\<close> and has a body that the decoder rejects with
  \<^verbatim>\<open>JSONDecodeError\<close>, an envelope in which a key of the path to the text is missing, or
  a text payload that the decoder rejects with \<^verbatim>\<open>JSONDecodeError\<close>, \<^verbatim>\<open>call_gemini_api\<close>
  reports the error of line 76 and returns \<^verbatim>\<open>None\<close> at once: the trace ends with that
  attempt's request and the error.
\<close>

lemma named_failures_end_call:
  assumes "j < nat retries" and "\<forall>m<j. retryable (backend m)"
    and "backend j = Transport_failure
         \<or> backend j = Response status_code body
           \<and> (status_code < 400 \<or> 600 \<le> status_code)
           \<and> (loads body = Inl JSONDecodeError
              \<or> loads body = Inr envelope
                \<and> (envelope_text envelope = Inl KeyError
                   \<or> envelope_text envelope = Inr (JStr payload)
                     \<and> loads payload = Inl JSONDecodeError))"
  shows "call_gemini_api loads backend p d retries =
           (retry_trace p d retries 0 1 j
              @ [Post p d,
                 Error_calling
                   (if backend j = Transport_failure then RequestException
                    else if loads body = Inl JSONDecodeError then JSONDecodeError
                    else if envelope_text envelope = Inl KeyError then KeyError
                    else JSONDecodeError)],
            Inr JNull)
         \<and> posts (fst (call_gemini_api loads backend p d retries)) = Suc j"
proof -
  define e where "e =
    (if backend j = Transport_failure then RequestException
     else if loads body = Inl JSONDecodeError then JSONDecodeError
     else if envelope_text envelope = Inl KeyError then KeyError
     else JSONDecodeError)"
  have tb: "try_body loads (backend j) = Inl e"
    using assms(3) by (auto simp: e_def try_body_def loads_payload_def)
  have e: "e \<in> {RequestException, JSONDecodeError, KeyError}"
    by (simp add: e_def)
  have run: "call_gemini_api loads backend p d retries =
      (retry_trace p d retries 0 1 j @ [Post p d, Error_calling e], Inr JNull)"
    using call_at_attempt[OF assms(1,2), of loads p d] tb e by auto
  have "posts (fst (call_gemini_api loads backend p d retries)) = Suc j"
    by (simp add: run posts_append posts_retry_trace)
  with run show ?thesis unfolding e_def by blast
qed

text \<open>The four failures at the first attempt: a transport failure, a body that is not
  JSON, an envelope without the key \<^verbatim>\<open>candidates\<close>, a text payload that is not JSON.\<close>

lemma loads_html: \<open>json_loads ''<html>'' = Inl JSONDecodeError\<close>
  by code_simp

lemma loads_empty_object: \<open>json_loads ''{}'' = Inr (JObj [])\<close>
  by code_simp

lemma loads_envelope_not_json:
  \<open>json_loads (envelope_body ''not json'') =
     Inr (JObj [(''candidates'', JArr [JObj [(''content'',
       JObj [(''parts'', JArr [JObj [(''text'', JStr ''not json'')]])])]])])\<close>
  by code_simp

lemma loads_not_json: \<open>json_loads ''not json'' = Inl JSONDecodeError\<close>
  by code_simp

lemma text_of_envelope:
  "envelope_text (JObj [(''candidates'', JArr [JObj [(''content'',
       JObj [(''parts'', JArr [JObj [(''text'', JStr payload)]])])]])]) = Inr (JStr payload)"
  by (simp add: envelope_text_def)

lemma first_attempt_always:
  "(0::nat) < nat 5" "\<forall>m<(0::nat). retryable (always outcome m)" "always outcome 0 = outcome"
  by (simp_all add: always_def)

lemma default_budget: "(5::nat) = Suc (Suc (Suc (Suc (Suc 0))))"
  by simp

lemma named_failures_examples:
  \<open>call_gemini_api json_loads (always Transport_failure) prompt ''QQ=='' 5 =
     ([Post prompt ''QQ=='', Error_calling RequestException], Inr JNull)
   \<and> call_gemini_api json_loads (always (Response 200 ''<html>'')) prompt ''QQ=='' 5 =
     ([Post prompt ''QQ=='', Error_calling JSONDecodeError], Inr JNull)
   \<and> call_gemini_api json_loads (always (Response 200 ''{}'')) prompt ''QQ=='' 5 =
     ([Post prompt ''QQ=='', Error_calling KeyError], Inr JNull)
   \<and> call_gemini_api json_loads (always (Response 200 (envelope_body ''not json'')))
        prompt ''QQ=='' 5 =
     ([Post prompt ''QQ=='', Error_calling JSONDecodeError], Inr JNull)\<close>
  by (simp add: call_gemini_api_def always_def try_body_def loads_payload_def loads_html
      loads_empty_object loads_envelope_not_json loads_not_json text_of_envelope
      envelope_text_def default_budget)

text \<open>
  C3. The claim holds for the failures that line 75 names, as shown above. It does not
  hold for an envelope that misses the first candidate or the first part: for the body
  \<^verbatim>\<open>{"candidates":[]}\<close>, and for \<^verbatim>\<open>{"candidates":[{"content":{"parts":[]}}]}\<close>, line 66
  raises \<^verbatim>\<open>IndexError\<close>, which neither \<^verbatim>\<open>except\<close> clause names. The exception leaves
  \<^verbatim>\<open>call_gemini_api\<close> after the request: no error is reported and nothing is returned.
\<close>

theorem missing_element_escapes:
  \<open>call_gemini_api json_loads (always (Response 200 ''{"candidates":[]}'')) prompt ''QQ=='' 5 =
     ([Post prompt ''QQ==''], Inl IndexError)
   \<and> call_gemini_api json_loads
        (always (Response 200 ''{"candidates":[{"content":{"parts":[]}}]}'')) prompt ''QQ=='' 5 =
     ([Post prompt ''QQ==''], Inl IndexError)\<close>
proof -
  have no_candidate:
    \<open>json_loads ''{"candidates":[]}'' = Inr (JObj [(''candidates'', JArr [])])\<close>
    by code_simp
  have no_part:
    \<open>json_loads ''{"candidates":[{"content":{"parts":[]}}]}'' =
       Inr (JObj [(''candidates'', JArr [JObj [(''content'', JObj [(''parts'', JArr [])])]])])\<close>
    by code_simp
  show ?thesis
    by (simp add: call_gemini_api_def always_def try_body_def no_candidate no_part
        envelope_text_def default_budget)
qed


text \<open>
  The response of the specification's example, with the status 200 and the payload
  \<^verbatim>\<open>[{"food_item":"Apple","calories":95}]\<close>: the one entry is returned and its total is
  95. The same response at the fifth attempt, after four responses with the status
  500: the entry is returned after the sleeps 1, 2, 4 and 8.
\<close>

lemma loads_apple:
  \<open>json_loads ''[{"food_item":"Apple","calories":95}]'' =
     Inr (JArr [JObj [(''food_item'', JStr ''Apple''), (''calories'', JInt 95)]])\<close>
  by code_simp

lemma loads_envelope_apple:
  \<open>json_loads (envelope_body ''[{"food_item":"Apple","calories":95}]'') =
     Inr (JObj [(''candidates'', JArr [JObj [(''content'',
       JObj [(''parts'', JArr [JObj [(''text'',
         JStr ''[{"food_item":"Apple","calories":95}]'')]])])]])])\<close>
  by code_simp


subsection \<open>The total\<close>

lemma sum_calories_entries:
  "\<forall>item \<in> set items. food_entry item \<Longrightarrow>
   sum_calories (Int_value acc) items =
     Inr (Int_value (acc + sum_list (map calories_or_zero items)))"
proof (induction items arbitrary: acc)
  case Nil
  then show ?case by simp
next
  case (Cons item items)
  from Cons.prems have "food_entry item" by simp
  then obtain kvs where item: "item = JObj kvs"
    by (cases item) auto
  have step: "\<exists>n. item_get_calories item = Inr (JInt n) \<and> calories_or_zero item = n"
    using \<open>food_entry item\<close> unfolding item
    by (auto simp: item_get_calories_def split: option.splits json.splits)
  then obtain n where n: "item_get_calories item = Inr (JInt n)" "calories_or_zero item = n"
    by blast
  have "sum_calories (Int_value (acc + n)) items =
      Inr (Int_value (acc + n + sum_list (map calories_or_zero items)))"
    using Cons.IH[of "acc + n"] Cons.prems by simp
  then show ?case by (simp add: n)
qed

text \<open>
  C7, as the code has it. For every result sequence whose entries are dicts with an
  integer under \<^verbatim>\<open>calories\<close> or without that key, the total of line 127 is the sum of
  the calories of the entries, an entry without the key counting zero.
\<close>

theorem total_is_sum_of_calories:
  assumes "\<forall>item \<in> set items. food_entry item"
  shows "total_calories (JArr items) = Inr (Int_value (sum_list (map calories_or_zero items)))"
  using sum_calories_entries[OF assms, of 0]
  by (simp add: total_calories_def iter_items_def)

text \<open>The sequence of the specification's example: the entry \<open>A\<close> with 10 calories and
  the entry \<open>B\<close> without the key total 10.\<close>

theorem total_is_sum_of_calories_witness:
  "total_calories
     (JArr [JObj [(''food_item'', JStr ''A''), (''calories'', JInt 10)],
            JObj [(''food_item'', JStr ''B'')]]) = Inr (Int_value 10)"
proof -
  have "\<forall>item \<in> set [JObj [(''food_item'', JStr ''A''), (''calories'', JInt 10)],
            JObj [(''food_item'', JStr ''B'')]]. food_entry item"
    by simp
  from total_is_sum_of_calories[OF this] show ?thesis by simp
qed

text \<open>
  C7 as stated speaks of every result sequence. The payload
  \<^verbatim>\<open>[{"food_item":"A","calories":N},{"food_item":"B","calories":0.5}]\<close>, with the digits
  of the integer \<open>10 ^ 400\<close> for \<^verbatim>\<open>N\<close>, decodes to two entries of the data model, the
  second with a float. \<^verbatim>\<open>sum\<close> adds the integer to 0 and then has to convert
  the result for the float: the conversion raises \<^verbatim>\<open>OverflowError\<close>, and there is no
  total.
\<close>

theorem float_total_counterexample:
  \<open>json_loads (''[{"food_item":"A","calories":1'' @ replicate 400 (CHR ''0'')
                 @ ''},{"food_item":"B","calories":0.5}]'') =
     Inr (JArr [JObj [(''food_item'', JStr ''A''), (''calories'', JInt (10 ^ 400))],
                JObj [(''food_item'', JStr ''B''),
                      (''calories'', JFloat (Decimal False 5 (- 1)))]])
   \<and> spec_food_estimate (JObj [(''food_item'', JStr ''A''), (''calories'', JInt (10 ^ 400))])
   \<and> spec_food_estimate
        (JObj [(''food_item'', JStr ''B''), (''calories'', JFloat (Decimal False 5 (- 1)))])
   \<and> total_calories
        (JArr [JObj [(''food_item'', JStr ''A''), (''calories'', JInt (10 ^ 400))],
               JObj [(''food_item'', JStr ''B''),
                     (''calories'', JFloat (Decimal False 5 (- 1)))]]) = Inl OverflowError\<close>
proof -
  have decoded: \<open>json_loads (''[{"food_item":"A","calories":1'' @ replicate 400 (CHR ''0'')
                 @ ''},{"food_item":"B","calories":0.5}]'') =
     Inr (JArr [JObj [(''food_item'', JStr ''A''), (''calories'', JInt (10 ^ 400))],
                JObj [(''food_item'', JStr ''B''),
                      (''calories'', JFloat (Decimal False 5 (- 1)))]])\<close>
    by code_simp
  have too_large: "\<not> int_fits_float (10 ^ 400)"
    by (simp add: int_fits_float_def)
  have total: \<open>total_calories
        (JArr [JObj [(''food_item'', JStr ''A''), (''calories'', JInt (10 ^ 400))],
               JObj [(''food_item'', JStr ''B''),
                     (''calories'', JFloat (Decimal False 5 (- 1)))]]) = Inl OverflowError\<close>
    using too_large
    by (simp add: total_calories_def iter_items_def item_get_calories_def)
  show ?thesis using decoded total by simp
qed

subsection \<open>What leaves the client and the script\<close>

text \<open>On a handled body the \<^verbatim>\<open>try\<close> returns or raises an exception that one of the two
  \<^verbatim>\<open>except\<close> clauses names.\<close>

lemma try_body_outcomes:
  assumes "\<forall>s body. outcome = Response s body \<longrightarrow> (s < 400 \<or> 600 \<le> s)
             \<longrightarrow> handled_body loads body"
  shows "(\<exists>v. try_body loads outcome = Inr v)
         \<or> (\<exists>s. try_body loads outcome = Inl (HTTPError s))
         \<or> try_body loads outcome \<in> {Inl RequestException, Inl JSONDecodeError, Inl KeyError}"
proof (cases outcome)
  case Transport_failure
  then show ?thesis by (simp add: try_body_def)
next
  case (Response s body)
  show ?thesis
  proof (cases "400 \<le> s \<and> s < 600")
    case True
    then show ?thesis using Response by (simp add: try_body_def)
  next
    case False
    then have handled: "handled_body loads body" using assms Response by auto
    have tb: "try_body loads outcome =
        (case loads body of
           Inl e \<Rightarrow> Inl e
         | Inr result \<Rightarrow>
             (case envelope_text result of
                Inl e \<Rightarrow> Inl e
              | Inr json_string \<Rightarrow> loads_payload loads json_string))"
      using Response False by (auto simp: try_body_def)
    show ?thesis
    proof (cases "loads body")
      case (Inl e)
      then show ?thesis using handled tb by (simp add: handled_body_def)
    next
      case (Inr envelope)
      note body = Inr
      show ?thesis
      proof (cases "envelope_text envelope")
        case (Inl e)
        then show ?thesis using handled tb body by (simp add: handled_body_def)
      next
        case (Inr json_string)
        then obtain payload where payload: "json_string = JStr payload"
          using handled body by (cases json_string) (simp_all add: handled_body_def)
        show ?thesis
        proof (cases "loads payload")
          case (Inl e)
          then show ?thesis using handled tb body Inr payload
            by (simp add: handled_body_def loads_payload_def)
        next
          case (Inr v)
          then show ?thesis using tb body \<open>envelope_text envelope = Inr json_string\<close> payload
            by (simp add: loads_payload_def)
        qed
      qed
    qed
  qed
qed

lemma retry_loop_outcome:
  assumes "\<forall>m<k. \<forall>s body. backend (i + m) = Response s body \<longrightarrow> (s < 400 \<or> 600 \<le> s)
             \<longrightarrow> handled_body loads body"
  shows "\<exists>es v. retry_loop loads backend p d r k i delay = (es, Inr v) \<and> es \<noteq> []
           \<and> (is_st_error (last es) \<and> v = JNull
              \<or> last es = Post p d \<and> (\<exists>m<k. try_body loads (backend (i + m)) = Inr v))"
  using assms
proof (induction k arbitrary: i delay)
  case 0
  then show ?case by simp
next
  case (Suc k)
  have here: "\<forall>s body. backend i = Response s body \<longrightarrow> (s < 400 \<or> 600 \<le> s)
             \<longrightarrow> handled_body loads body"
    using Suc.prems[rule_format, of 0] by simp
  have later: "\<forall>m<k. \<forall>s body. backend (Suc i + m) = Response s body \<longrightarrow> (s < 400 \<or> 600 \<le> s)
             \<longrightarrow> handled_body loads body"
    using Suc.prems[rule_format, of "Suc _"] by simp
  from Suc.IH[OF later, of "delay * 2"] obtain es v where
    rest: "retry_loop loads backend p d r k (Suc i) (delay * 2) = (es, Inr v)" "es \<noteq> []"
      "is_st_error (last es) \<and> v = JNull
        \<or> last es = Post p d \<and> (\<exists>m<k. try_body loads (backend (Suc i + m)) = Inr v)"
    by blast
  have rest': "is_st_error (last es) \<and> v = JNull
        \<or> last es = Post p d \<and> (\<exists>m<Suc k. try_body loads (backend (i + m)) = Inr v)"
    using rest(3) by (metis Suc_less_eq add_Suc_shift)
  from try_body_outcomes[OF here] consider
      (ok) v' where "try_body loads (backend i) = Inr v'"
    | (http) s where "try_body loads (backend i) = Inl (HTTPError s)"
    | (fatal) "try_body loads (backend i) \<in> {Inl RequestException, Inl JSONDecodeError, Inl KeyError}"
    by blast
  then show ?case
  proof cases
    case ok
    then show ?thesis by (auto intro: exI[of _ 0])
  next
    case http
    show ?thesis
    proof (cases "s = 403")
      case True
      then show ?thesis using http by simp
    next
      case False
      then show ?thesis using http rest(1,2) rest' by simp
    qed
  next
    case fatal
    then show ?thesis by auto
  qed
qed

lemma script_after_call:
  assumes "call_gemini_api loads backend prompt (b64encode jpeg) 5 = (es, Inr v)"
  shows "script loads st_table backend (Some (Inr (Inr jpeg))) True =
           (Image_shown # es @ fst (render_results st_table v),
            snd (render_results st_table v))"
  using assms by (simp add: script_def image_to_base64_def split: prod.splits)

text \<open>
  C5, as the code has it. Take a run of the script with an image that encodes, in which
  every body that passes \<^verbatim>\<open>raise_for_status\<close> is handled: the decoder raises nothing
  but \<^verbatim>\<open>JSONDecodeError\<close> on it and on its text payload, and its envelope misses a key
  of the path or holds a string there. Then \<^verbatim>\<open>call_gemini_api\<close> raises nothing, and its
  trace ends in one of two ways: with an \<^verbatim>\<open>st.error\<close>, and then it returns \<^verbatim>\<open>None\<close> and
  the script shows nothing more and ends normally; or with the request whose decoded
  payload it returns. An image that does not encode is not handled: the exception of
  \<^verbatim>\<open>image.save\<close> leaves the script after the image is shown.
\<close>

theorem failure_paths_degrade:
  assumes "\<forall>m<5. \<forall>s body. backend m = Response s body \<longrightarrow> (s < 400 \<or> 600 \<le> s)
             \<longrightarrow> handled_body loads body"
  shows "(\<exists>es v. call_gemini_api loads backend prompt (b64encode jpeg) 5 = (es, Inr v)
            \<and> es \<noteq> []
            \<and> (is_st_error (last es) \<and> v = JNull
                  \<and> script loads st_table backend (Some (Inr (Inr jpeg))) True =
                      (Image_shown # es, Inr ())
               \<or> last es = Post prompt (b64encode jpeg)
                  \<and> (\<exists>m<5. try_body loads (backend m) = Inr v)))
         \<and> script loads st_table backend (Some (Inr (Inl e))) True = ([Image_shown], Inl e)"
proof -
  have "\<forall>m<nat 5. \<forall>s body. backend (0 + m) = Response s body \<longrightarrow> (s < 400 \<or> 600 \<le> s)
             \<longrightarrow> handled_body loads body"
    using assms by simp
  from retry_loop_outcome[OF this, of prompt "b64encode jpeg" 5 1]
  obtain es v where run: "call_gemini_api loads backend prompt (b64encode jpeg) 5 = (es, Inr v)"
    and ne: "es \<noteq> []"
    and cases: "is_st_error (last es) \<and> v = JNull
      \<or> last es = Post prompt (b64encode jpeg) \<and> (\<exists>m<5. try_body loads (backend m) = Inr v)"
    by (auto simp: call_gemini_api_def)
  have "v = JNull \<Longrightarrow>
      script loads st_table backend (Some (Inr (Inr jpeg))) True = (Image_shown # es, Inr ())"
    using script_after_call[OF run, of st_table] by (simp add: render_results_def)
  with run ne cases have first:
    "\<exists>es v. call_gemini_api loads backend prompt (b64encode jpeg) 5 = (es, Inr v)
            \<and> es \<noteq> []
            \<and> (is_st_error (last es) \<and> v = JNull
                  \<and> script loads st_table backend (Some (Inr (Inr jpeg))) True =
                      (Image_shown # es, Inr ())
               \<or> last es = Post prompt (b64encode jpeg)
                  \<and> (\<exists>m<5. try_body loads (backend m) = Inr v))"
    by blast
  have second: "script loads st_table backend (Some (Inr (Inl e))) True = ([Image_shown], Inl e)"
    by (simp add: script_def image_to_base64_def)
  from first second show ?thesis by blast
qed

text \<open>An envelope without the key \<^verbatim>\<open>candidates\<close> ends with the error of line 76 and
  nothing rendered; an image that raises \<^verbatim>\<open>OSError\<close> on saving ends the script with it.\<close>

lemma b64_jpeg: "b64encode ''JPEG'' = ''SlBFRw==''"
  by (simp add: b64_char_def b64_alphabet_def)

theorem failure_paths_degrade_witness:
  \<open>script json_loads (renders_only []) (always (Response 200 ''{}''))
      (Some (Inr (Inr ''JPEG''))) True =
     ([Image_shown, Post prompt ''SlBFRw=='', Error_calling KeyError], Inr ())
   \<and> script json_loads (renders_only []) (always (Response 200 ''{}''))
      (Some (Inr (Inl OSError))) True =
     ([Image_shown], Inl OSError)\<close>
proof -
  have shaped: \<open>\<forall>m<5. \<forall>s body. always (Response 200 ''{}'') m = Response s body
      \<longrightarrow> (s < 400 \<or> 600 \<le> s) \<longrightarrow> handled_body json_loads body\<close>
    by (auto simp: always_def loads_empty_object handled_body_def envelope_text_def)
  have run: \<open>call_gemini_api json_loads (always (Response 200 ''{}'')) prompt (b64encode ''JPEG'') 5
      = ([Post prompt ''SlBFRw=='', Error_calling KeyError], Inr JNull)\<close>
    by (simp add: call_gemini_api_def always_def try_body_def loads_empty_object
        envelope_text_def b64_jpeg default_budget del: b64encode.simps)
  from failure_paths_degrade[OF shaped, of \<open>''JPEG''\<close> "renders_only []" OSError]
  show ?thesis unfolding run by auto
qed

text \<open>
  C5 as stated names the empty \<^verbatim>\<open>candidates\<close> array and the encoding failure among the
  failures that end in a message. With the body \<^verbatim>\<open>{"candidates":[]}\<close> line 66 raises
  \<^verbatim>\<open>IndexError\<close>, which no \<^verbatim>\<open>except\<close> clause names: it leaves \<^verbatim>\<open>call_gemini_api\<close> and
  the script, with no message. An \<^verbatim>\<open>OSError\<close> of \<^verbatim>\<open>image.save\<close> leaves the script in
  the same way.
\<close>

theorem empty_candidates_counterexample:
  \<open>script json_loads (renders_only []) (always (Response 200 ''{"candidates":[]}''))
      (Some (Inr (Inr ''JPEG''))) True =
     ([Image_shown, Post prompt ''SlBFRw==''], Inl IndexError)
   \<and> script json_loads (renders_only []) (always (Response 200 ''{"candidates":[]}''))
      (Some (Inr (Inl OSError))) True =
     ([Image_shown], Inl OSError)\<close>
proof -
  have l: \<open>json_loads ''{"candidates":[]}'' = Inr (JObj [(''candidates'', JArr [])])\<close>
    by code_simp
  show ?thesis
    by (simp add: script_def image_to_base64_def call_gemini_api_def always_def try_body_def
        l envelope_text_def b64_jpeg default_budget del: b64encode.simps)
qed

subsection \<open>What reaches the caller\<close>

text \<open>A value that the body of the \<^verbatim>\<open>try\<close> returns is the decoded text payload of the
  response; a value that the loop returns is \<^verbatim>\<open>None\<close> or such a payload.\<close>

lemma try_body_returns:
  assumes "try_body loads outcome = Inr v"
  shows "\<exists>s body env t. outcome = Response s body \<and> (s < 400 \<or> 600 \<le> s)
           \<and> loads body = Inr env \<and> envelope_text env = Inr (JStr t) \<and> loads t = Inr v"
  using assms
  by (auto simp: try_body_def loads_payload_def
      split: http_outcome.splits if_splits sum.splits json.splits)

lemma retry_loop_returns:
  "retry_loop loads backend p d r k i delay = (es, Inr v) \<Longrightarrow>
   v = JNull \<or> (\<exists>m<k. try_body loads (backend (i + m)) = Inr v)"
proof (induction k arbitrary: i delay es)
  case 0
  then show ?case by simp
next
  case (Suc k)
  show ?case
  proof (cases "try_body loads (backend i)")
    case (Inr v')
    then have "v' = v" using Suc.prems by simp
    then show ?thesis using Inr by (auto intro: exI[of _ 0])
  next
    case (Inl e)
    show ?thesis
    proof (cases "\<exists>s. e = HTTPError s \<and> s \<noteq> 403")
      case True
      then obtain s where s: "e = HTTPError s" "s \<noteq> 403" by blast
      obtain es' r' where rest: "retry_loop loads backend p d r k (Suc i) (delay * 2) = (es', r')"
        by (cases "retry_loop loads backend p d r k (Suc i) (delay * 2)")
      have "r' = Inr v" using Suc.prems Inl s rest by simp
      from Suc.IH[OF rest[unfolded this]]
      show ?thesis by (metis Suc_less_eq add_Suc_shift)
    next
      case False
      then have "v = JNull" using Suc.prems Inl
        by (cases e) (auto split: if_splits)
      then show ?thesis by simp
    qed
  qed
qed

text \<open>The call that succeeds at attempt \<open>j\<close>.\<close>

lemma call_success:
  assumes "j < nat retries" and "\<forall>m<j. retryable (backend m)"
    and "backend j = Response status_code body"
    and "status_code < 400 \<or> 600 \<le> status_code"
    and "loads body = Inr envelope"
    and "envelope_text envelope = Inr (JStr payload)"
    and "loads payload = Inr v"
  shows "call_gemini_api loads backend p d retries =
           (retry_trace p d retries 0 1 j @ [Post p d], Inr v)"
proof -
  have tb: "try_body loads (backend j) = Inr v"
    using assms(3-7) by (auto simp: try_body_def loads_payload_def)
  show ?thesis
    using call_at_attempt[OF assms(1,2), of loads p d] tb by simp
qed

text \<open>
  C6, as the code has it. The value that \<^verbatim>\<open>call_gemini_api\<close> returns is \<^verbatim>\<open>None\<close> or the
  whole decoded text payload of one response, as decoded: no entry is checked, dropped
  or changed. The caller decides by the truth value of that value alone. When it is
  \<^verbatim>\<open>None\<close> or otherwise false, nothing is rendered and no total is computed. When it is
  true, the banner and the subheader are shown and the value goes to \<^verbatim>\<open>st.table\<close> as it
  is: if \<^verbatim>\<open>st.table\<close> raises, the run ends with that exception, without table and
  total; if it renders, the total is computed, and it is shown unless the sum of line
  127 raises, which then ends the run.
\<close>

theorem payload_surfaces_unvalidated:
  assumes "call_gemini_api loads backend p d retries = (es, Inr v)"
  shows "(v = JNull
          \<or> (\<exists>m<nat retries. \<exists>s body env t. backend m = Response s body
                \<and> loads body = Inr env \<and> envelope_text env = Inr (JStr t)
                \<and> loads t = Inr v))
         \<and> (p = prompt \<and> d = b64encode jpeg \<and> retries = 5 \<longrightarrow>
              script loads st_table backend (Some (Inr (Inr jpeg))) True =
                (if \<not> truthy v then (Image_shown # es, Inr ())
                 else (case st_table v of
                         Some e \<Rightarrow> (Image_shown # es @ [Success_banner, Subheader], Inl e)
                       | None \<Rightarrow>
                           (case total_calories v of
                              Inl e \<Rightarrow>
                                (Image_shown # es @ [Success_banner, Subheader, Table v], Inl e)
                            | Inr n \<Rightarrow>
                                (Image_shown # es
                                   @ [Success_banner, Subheader, Table v, Header_total n],
                                 Inr ())))))"
proof -
  have "v = JNull \<or> (\<exists>m<nat retries. try_body loads (backend (0 + m)) = Inr v)"
    using retry_loop_returns[of loads backend p d retries "nat retries" 0 1 es v] assms
    by (simp add: call_gemini_api_def)
  then have first: "v = JNull
          \<or> (\<exists>m<nat retries. \<exists>s body env t. backend m = Response s body
                \<and> loads body = Inr env \<and> envelope_text env = Inr (JStr t)
                \<and> loads t = Inr v)"
    using try_body_returns[of loads _ v] by fastforce
  have second: "script loads st_table backend (Some (Inr (Inr jpeg))) True =
                (if \<not> truthy v then (Image_shown # es, Inr ())
                 else (case st_table v of
                         Some e \<Rightarrow> (Image_shown # es @ [Success_banner, Subheader], Inl e)
                       | None \<Rightarrow>
                           (case total_calories v of
                              Inl e \<Rightarrow>
                                (Image_shown # es @ [Success_banner, Subheader, Table v], Inl e)
                            | Inr n \<Rightarrow>
                                (Image_shown # es
                                   @ [Success_banner, Subheader, Table v, Header_total n],
                                 Inr ()))))"
    if "p = prompt" "d = b64encode jpeg" "retries = 5"
    using script_after_call[of loads backend jpeg es v st_table] assms that
    by (simp add: render_results_def split: option.splits sum.splits)
  from first second show ?thesis by blast
qed

text \<open>The Apple response is rendered with its table and the total 95; after a 403
  nothing is rendered.\<close>

lemma accepted_200: "(200::nat) < 400 \<or> 600 \<le> (200::nat)"
  by simp

theorem payload_surfaces_unvalidated_witness:
  \<open>script json_loads
      (renders_only [JArr [JObj [(''food_item'', JStr ''Apple''), (''calories'', JInt 95)]]])
      (always (Response 200 (envelope_body ''[{"food_item":"Apple","calories":95}]'')))
      (Some (Inr (Inr ''JPEG''))) True =
     ([Image_shown, Post prompt ''SlBFRw=='', Success_banner, Subheader,
       Table (JArr [JObj [(''food_item'', JStr ''Apple''), (''calories'', JInt 95)]]),
       Header_total (Int_value 95)], Inr ())
   \<and> script json_loads (renders_only []) (always (Response 403 []))
        (Some (Inr (Inr ''JPEG''))) True =
     ([Image_shown, Post prompt ''SlBFRw=='', Error_403], Inr ())\<close>
proof -
  let ?apple = \<open>JArr [JObj [(''food_item'', JStr ''Apple''), (''calories'', JInt 95)]]\<close>
  let ?backend = \<open>always (Response 200 (envelope_body ''[{"food_item":"Apple","calories":95}]''))\<close>
  have run: "call_gemini_api json_loads ?backend prompt (b64encode ''JPEG'') 5 =
      ([Post prompt ''SlBFRw==''], Inr ?apple)"
    using call_success[where j = 0 and retries = 5 and loads = json_loads
        and backend = ?backend and p = prompt and d = "b64encode ''JPEG''",
        OF first_attempt_always accepted_200 loads_envelope_apple text_of_envelope loads_apple]
    by (simp add: b64_jpeg del: b64encode.simps)
  have denied: "call_gemini_api json_loads (always (Response 403 [])) prompt (b64encode ''JPEG'') 5 =
      ([Post prompt ''SlBFRw=='', Error_403], Inr JNull)"
    by (simp add: call_gemini_api_def always_def try_body_def b64_jpeg default_budget
        del: b64encode.simps)
  have total: "total_calories ?apple = Inr (Int_value 95)"
    by (simp add: total_calories_def iter_items_def item_get_calories_def)
  show ?thesis
    using payload_surfaces_unvalidated[OF run, of \<open>''JPEG''\<close> "renders_only [?apple]"]
      payload_surfaces_unvalidated[OF denied, of \<open>''JPEG''\<close> "renders_only []"]
    by (simp add: total renders_only_def)
qed

text \<open>
  C6 as stated lets only sequences of schema-valid entries reach the caller. The
  payload \<^verbatim>\<open>[{"food_item":"Apple","calories":95},{"food_item":7}]\<close> has a second entry
  whose \<^verbatim>\<open>food_item\<close> is a number and whose \<^verbatim>\<open>calories\<close> are missing; it is returned
  and rendered with the first, and the total is computed.
\<close>

lemma loads_partial:
  \<open>json_loads ''[{"food_item":"Apple","calories":95},{"food_item":7}]'' =
     Inr (JArr [JObj [(''food_item'', JStr ''Apple''), (''calories'', JInt 95)],
                JObj [(''food_item'', JInt 7)]])\<close>
  by code_simp

lemma loads_envelope_partial:
  \<open>json_loads (envelope_body ''[{"food_item":"Apple","calories":95},{"food_item":7}]'') =
     Inr (JObj [(''candidates'', JArr [JObj [(''content'',
       JObj [(''parts'', JArr [JObj [(''text'',
         JStr ''[{"food_item":"Apple","calories":95},{"food_item":7}]'')]])])]])])\<close>
  by code_simp

theorem schema_invalid_entry_counterexample:
  \<open>script json_loads
      (renders_only [JArr [JObj [(''food_item'', JStr ''Apple''), (''calories'', JInt 95)],
                           JObj [(''food_item'', JInt 7)]]])
      (always (Response 200
         (envelope_body ''[{"food_item":"Apple","calories":95},{"food_item":7}]'')))
      (Some (Inr (Inr ''JPEG''))) True =
     ([Image_shown, Post prompt ''SlBFRw=='', Success_banner, Subheader,
       Table (JArr [JObj [(''food_item'', JStr ''Apple''), (''calories'', JInt 95)],
                    JObj [(''food_item'', JInt 7)]]),
       Header_total (Int_value 95)], Inr ())
   \<and> \<not> spec_food_estimate (JObj [(''food_item'', JInt 7)])\<close>
proof -
  let ?backend = \<open>always (Response 200
         (envelope_body ''[{"food_item":"Apple","calories":95},{"food_item":7}]''))\<close>
  let ?v = \<open>JArr [JObj [(''food_item'', JStr ''Apple''), (''calories'', JInt 95)],
                    JObj [(''food_item'', JInt 7)]]\<close>
  have run: "call_gemini_api json_loads ?backend prompt (b64encode ''JPEG'') 5 =
      ([Post prompt ''SlBFRw==''], Inr ?v)"
    using call_success[where j = 0 and retries = 5 and loads = json_loads
        and backend = ?backend and p = prompt and d = "b64encode ''JPEG''",
        OF first_attempt_always accepted_200 loads_envelope_partial text_of_envelope loads_partial]
    by (simp add: b64_jpeg del: b64encode.simps)
  have total: "total_calories ?v = Inr (Int_value 95)"
    by (simp add: total_calories_def iter_items_def item_get_calories_def)
  show ?thesis
    by (simp add: script_after_call[OF run] render_results_def total renders_only_def)
qed

text \<open>
  C9. When the call succeeds with a text payload that decodes to the empty list, the
  script shows nothing after the request that succeeded: no success banner, no table,
  no total, and no warning or error for this outcome. The caller renders the empty list
  as it renders \<^verbatim>\<open>None\<close>.
\<close>

theorem empty_result_renders_nothing:
  assumes "j < 5" and "\<forall>m<j. retryable (backend m)"
    and "backend j = Response status_code body"
    and "200 \<le> status_code" and "status_code < 300"
    and "loads body = Inr envelope"
    and "envelope_text envelope = Inr (JStr payload)"
    and "loads payload = Inr (JArr [])"
  shows "script loads st_table backend (Some (Inr (Inr jpeg))) True =
           (Image_shown # retry_trace prompt (b64encode jpeg) 5 0 1 j
              @ [Post prompt (b64encode jpeg)], Inr ())
         \<and> render_results st_table (JArr []) = render_results st_table JNull"
proof -
  have j: "j < nat 5" using assms(1) by simp
  have ok: "status_code < 400 \<or> 600 \<le> status_code" using assms(5) by simp
  have run: "call_gemini_api loads backend prompt (b64encode jpeg) 5 =
      (retry_trace prompt (b64encode jpeg) 5 0 1 j @ [Post prompt (b64encode jpeg)],
       Inr (JArr []))"
    by (rule call_success[OF j assms(2,3) ok assms(6,7,8)])
  show ?thesis
    by (simp add: script_after_call[OF run] render_results_def)
qed

text \<open>The text payload \<^verbatim>\<open>[]\<close> at the first attempt: the trace is the image and the
  request.\<close>

lemma loads_empty_array: \<open>json_loads ''[]'' = Inr (JArr [])\<close>
  by code_simp

lemma loads_envelope_empty_array:
  \<open>json_loads (envelope_body ''[]'') =
     Inr (JObj [(''candidates'', JArr [JObj [(''content'',
       JObj [(''parts'', JArr [JObj [(''text'', JStr ''[]'')]])])]])])\<close>
  by code_simp

theorem empty_result_renders_nothing_witness:
  \<open>script json_loads (renders_only []) (always (Response 200 (envelope_body ''[]'')))
      (Some (Inr (Inr ''JPEG''))) True =
     ([Image_shown, Post prompt ''SlBFRw==''], Inr ())
   \<and> render_results (renders_only []) (JArr []) = ([], Inr ())\<close>
proof -
  have ok: "(200::nat) \<le> 200" "(200::nat) < 300" by simp_all
  have j: "(0::nat) < 5" by simp
  show ?thesis
    using empty_result_renders_nothing[where j = 0 and loads = json_loads
        and backend = \<open>always (Response 200 (envelope_body ''[]''))\<close> and jpeg = \<open>''JPEG''\<close>
        and st_table = "renders_only []",
        OF j first_attempt_always(2,3) ok loads_envelope_empty_array text_of_envelope
          loads_empty_array]
    by (simp add: b64_jpeg render_results_def del: b64encode.simps)
qed

text \<open>
  C10. When the call succeeds with a one-entry payload, the entry goes to \<^verbatim>\<open>st.table\<close>
  as it was decoded, whatever the name and the number are, and once the table is
  rendered the total is the entry's \<^verbatim>\<open>calories\<close>: an empty \<^verbatim>\<open>food_item\<close> and negative
  \<^verbatim>\<open>calories\<close> pass unchanged, so that for some successful response the total is
  negative. If \<^verbatim>\<open>st.table\<close> raises on the value, the run ends with that exception.
\<close>

theorem values_not_validated:
  assumes "j < 5" and "\<forall>m<j. retryable (backend m)"
    and "backend j = Response status_code body"
    and "200 \<le> status_code" and "status_code < 300"
    and "loads body = Inr envelope"
    and "envelope_text envelope = Inr (JStr payload)"
    and "loads payload = Inr (JArr [JObj [(''food_item'', JStr name), (''calories'', JInt n)]])"
  shows "script loads st_table backend (Some (Inr (Inr jpeg))) True =
           (case st_table (JArr [JObj [(''food_item'', JStr name), (''calories'', JInt n)]]) of
              None \<Rightarrow>
                (Image_shown # retry_trace prompt (b64encode jpeg) 5 0 1 j
                   @ [Post prompt (b64encode jpeg), Success_banner, Subheader,
                      Table (JArr [JObj [(''food_item'', JStr name), (''calories'', JInt n)]]),
                      Header_total (Int_value n)],
                 Inr ())
            | Some e \<Rightarrow>
                (Image_shown # retry_trace prompt (b64encode jpeg) 5 0 1 j
                   @ [Post prompt (b64encode jpeg), Success_banner, Subheader],
                 Inl e))"
proof -
  have j: "j < nat 5" using assms(1) by simp
  have ok: "status_code < 400 \<or> 600 \<le> status_code" using assms(5) by simp
  have run: "call_gemini_api loads backend prompt (b64encode jpeg) 5 =
      (retry_trace prompt (b64encode jpeg) 5 0 1 j @ [Post prompt (b64encode jpeg)],
       Inr (JArr [JObj [(''food_item'', JStr name), (''calories'', JInt n)]]))"
    by (rule call_success[OF j assms(2,3) ok assms(6,7,8)])
  have total: "total_calories (JArr [JObj [(''food_item'', JStr name), (''calories'', JInt n)]])
      = Inr (Int_value n)"
    by (simp add: total_calories_def iter_items_def item_get_calories_def)
  show ?thesis
    by (simp add: script_after_call[OF run] render_results_def total split: option.splits)
qed

text \<open>The payload \<^verbatim>\<open>[{"food_item":"","calories":-50}]\<close>: the entry with the empty name is
  in the table and the total is \<open>-50\<close>.\<close>

lemma loads_negative:
  \<open>json_loads ''[{"food_item":"","calories":-50}]'' =
     Inr (JArr [JObj [(''food_item'', JStr ''''), (''calories'', JInt (- 50))]])\<close>
  by code_simp

lemma loads_envelope_negative:
  \<open>json_loads (envelope_body ''[{"food_item":"","calories":-50}]'') =
     Inr (JObj [(''candidates'', JArr [JObj [(''content'',
       JObj [(''parts'', JArr [JObj [(''text'',
         JStr ''[{"food_item":"","calories":-50}]'')]])])]])])\<close>
  by code_simp

theorem values_not_validated_witness:
  \<open>script json_loads
      (renders_only [JArr [JObj [(''food_item'', JStr ''''), (''calories'', JInt (- 50))]]])
      (always (Response 200 (envelope_body ''[{"food_item":"","calories":-50}]'')))
      (Some (Inr (Inr ''JPEG''))) True =
     ([Image_shown, Post prompt ''SlBFRw=='', Success_banner, Subheader,
       Table (JArr [JObj [(''food_item'', JStr ''''), (''calories'', JInt (- 50))]]),
       Header_total (Int_value (- 50))], Inr ())\<close>
proof -
  have ok: "(200::nat) \<le> 200" "(200::nat) < 300" by simp_all
  have j: "(0::nat) < 5" by simp
  show ?thesis
    using values_not_validated[where j = 0 and loads = json_loads
        and backend = \<open>always (Response 200 (envelope_body ''[{"food_item":"","calories":-50}]''))\<close>
        and jpeg = \<open>''JPEG''\<close>
        and st_table = \<open>renders_only
          [JArr [JObj [(''food_item'', JStr ''''), (''calories'', JInt (- 50))]]]\<close>,
        OF j first_attempt_always(2,3) ok loads_envelope_negative text_of_envelope
          loads_negative]
    by (simp add: b64_jpeg renders_only_def del: b64encode.simps)
qed

end
